theory Spec2Isabelle
  imports Complex_Main "HOL-Library.Sublist"
begin

section \<open>Data model (beam\_library.py)\<close>

text \<open>
  Python floats are modelled as exact reals: rounding error, overflow and the
  special values of IEEE arithmetic are outside this development.  The dataclasses
  \<open>Material\<close>, \<open>Beam\<close> and \<open>Load\<close> become records; the three optional fields of
  \<open>Load\<close> keep their \<open>None\<close>.
\<close>

record material =
  m_name :: string
  m_E :: real

record beam =
  b_name :: string
  b_length :: real
  b_width :: real
  b_thickness :: real

record load =
  l_name :: string
  load_type :: string
  l_w :: "real option"
  l_P :: "real option"
  l_a :: "real option"

record library =
  materials :: "material list"
  beams :: "beam list"
  loads :: "load list"

definition moment_of_inertia :: "beam \<Rightarrow> real" where
  "moment_of_inertia bm = (b_width bm * b_thickness bm ^ 3) / 12"

definition get_materials :: "library \<Rightarrow> material list" where
  "get_materials lib = materials lib"

definition get_beams :: "library \<Rightarrow> beam list" where
  "get_beams lib = beams lib"

definition get_loads :: "library \<Rightarrow> load list" where
  "get_loads lib = loads lib"

section \<open>Deflection kernel (compute\_deflections.py, lines 10--58)\<close>

text \<open>
  The exceptions the run can end with.  A division of Python floats by zero raises
  \<open>ZeroDivisionError\<close>; arithmetic on a field that is \<open>None\<close> raises
  \<open>TypeError\<close>; \<open>input()\<close> at the end of the input raises \<open>EOFError\<close>.
\<close>

datatype error = ZeroDivisionError | TypeError | EOFError

definition y1 :: "real \<Rightarrow> real \<Rightarrow> real \<Rightarrow> real \<Rightarrow> real \<Rightarrow> error + real" where
  "y1 x E1 I L w =
     (if 24 * E1 * I = 0 \<or> 6 * E1 * I = 0 then Inl ZeroDivisionError
      else Inr ((- w / (24 * E1 * I)) * (L - x) ^ 4 - (w * L ^ 3) / (6 * E1 * I) * x
                + (w * L ^ 4) / (24 * E1 * I)))"

definition y2 :: "real \<Rightarrow> real \<Rightarrow> real \<Rightarrow> real \<Rightarrow> real \<Rightarrow> real \<Rightarrow> real \<Rightarrow> error + real" where
  "y2 x E1 E2 I L T w =
     (if 24 * E2 * I = 0 \<or> 6 * I = 0 \<or> E1 = 0 \<or> E2 = 0 \<or> 24 * E1 * I = 0
      then Inl ZeroDivisionError
      else
        let term1 = (- w) / (24 * E2 * I) * (L - x) ^ 4;
            coefficient = (- w) / (6 * I) * ((L ^ 3 - (L - T) ^ 3) / E1 + (L - T) ^ 3 / E2);
            term2 = coefficient * x;
            term3 = (w / (24 * E1 * I)) * (L ^ 4 - (L - T) ^ 4 - 4 * L ^ 3 * T);
            term4 = (w / (24 * E2 * I)) * (L - T) ^ 4;
            term5 = - coefficient * T
        in Inr (term1 + term2 + term3 + term4 + term5))"

definition theta1 :: "real \<Rightarrow> real \<Rightarrow> real \<Rightarrow> real \<Rightarrow> real \<Rightarrow> error + real" where
  "theta1 x E1 I L w =
     (if 6 * E1 * I = 0 then Inl ZeroDivisionError
      else Inr ((w / (6 * E1 * I)) * (L - x) ^ 3 - (w * L ^ 3) / (6 * E1 * I)))"

definition theta2 :: "real \<Rightarrow> real \<Rightarrow> real \<Rightarrow> real \<Rightarrow> real \<Rightarrow> real \<Rightarrow> real \<Rightarrow> error + real" where
  "theta2 x E1 E2 I L T w =
     (if 6 * E2 * I = 0 \<or> 6 * I = 0 \<or> E1 = 0 \<or> E2 = 0 then Inl ZeroDivisionError
      else
        let term1 = (w / (6 * E2 * I)) * (L - x) ^ 3;
            coefficient = (- w) / (6 * I) * ((L ^ 3 - (L - T) ^ 3) / E1 + (L - T) ^ 3 / E2)
        in Inr (term1 + coefficient))"

text \<open>
  The two branch bodies of \<open>y_point_load\<close> and of \<open>theta_point_load\<close>, named so that
  each can be evaluated on its own; the fifth parameter is the load position, which
  the source calls \<open>y\<close>.
\<close>

definition y_point_load_before :: "real \<Rightarrow> real \<Rightarrow> real \<Rightarrow> real \<Rightarrow> real \<Rightarrow> real" where
  "y_point_load_before x P E1 I y = (P / (2 * E1 * I)) * (y * x ^ 2 - (x ^ 3) / 3)"

definition y_point_load_from :: "real \<Rightarrow> real \<Rightarrow> real \<Rightarrow> real \<Rightarrow> real \<Rightarrow> real" where
  "y_point_load_from x P E1 I y = (P * y ^ 2) / (2 * E1 * I) * (x - y)"

definition y_point_load :: "real \<Rightarrow> real \<Rightarrow> real \<Rightarrow> real \<Rightarrow> real \<Rightarrow> error + real" where
  "y_point_load x P E1 I y =
     (if x < y
      then (if 2 * E1 * I = 0 then Inl ZeroDivisionError
            else Inr (y_point_load_before x P E1 I y))
      else (if 2 * E1 * I = 0 then Inl ZeroDivisionError
            else Inr (y_point_load_from x P E1 I y)))"

definition theta_point_load_before :: "real \<Rightarrow> real \<Rightarrow> real \<Rightarrow> real \<Rightarrow> real \<Rightarrow> real" where
  "theta_point_load_before x P E1 I y = - (P / (E1 * I)) * (y * x - (x ^ 2) / 2)"

definition theta_point_load_from :: "real \<Rightarrow> real \<Rightarrow> real \<Rightarrow> real \<Rightarrow> real \<Rightarrow> real" where
  "theta_point_load_from x P E1 I y = - (P * y ^ 2) / (2 * E1 * I)"

definition theta_point_load :: "real \<Rightarrow> real \<Rightarrow> real \<Rightarrow> real \<Rightarrow> real \<Rightarrow> error + real" where
  "theta_point_load x P E1 I y =
     (if x < y
      then (if E1 * I = 0 then Inl ZeroDivisionError
            else Inr (theta_point_load_before x P E1 I y))
      else (if 2 * E1 * I = 0 then Inl ZeroDivisionError
            else Inr (theta_point_load_from x P E1 I y)))"

section \<open>The closed forms as the specification words them\<close>

text \<open>
  These definitions follow the wording of the specification's section 4.2, not the
  code; they are what the kernel above is compared with.
\<close>

definition spec_y1 :: "real \<Rightarrow> real \<Rightarrow> real \<Rightarrow> real \<Rightarrow> real \<Rightarrow> real" where
  "spec_y1 x E1 I L w =
     - w / (24 * E1 * I) * (L - x) ^ 4 - w * L ^ 3 / (6 * E1 * I) * x + w * L ^ 4 / (24 * E1 * I)"

definition spec_theta1 :: "real \<Rightarrow> real \<Rightarrow> real \<Rightarrow> real \<Rightarrow> real \<Rightarrow> real" where
  "spec_theta1 x E1 I L w = w / (6 * E1 * I) * (L - x) ^ 3 - w * L ^ 3 / (6 * E1 * I)"

definition spec_C :: "real \<Rightarrow> real \<Rightarrow> real \<Rightarrow> real \<Rightarrow> real \<Rightarrow> real \<Rightarrow> real" where
  "spec_C E1 E2 I L T w = - w / (6 * I) * ((L ^ 3 - (L - T) ^ 3) / E1 + (L - T) ^ 3 / E2)"

definition spec_y2 :: "real \<Rightarrow> real \<Rightarrow> real \<Rightarrow> real \<Rightarrow> real \<Rightarrow> real \<Rightarrow> real \<Rightarrow> real" where
  "spec_y2 x E1 E2 I L T w =
     - w / (24 * E2 * I) * (L - x) ^ 4 + spec_C E1 E2 I L T w * x
     + w / (24 * E1 * I) * (L ^ 4 - (L - T) ^ 4 - 4 * L ^ 3 * T)
     + w / (24 * E2 * I) * (L - T) ^ 4 - spec_C E1 E2 I L T w * T"

definition spec_theta2 :: "real \<Rightarrow> real \<Rightarrow> real \<Rightarrow> real \<Rightarrow> real \<Rightarrow> real \<Rightarrow> real \<Rightarrow> real" where
  "spec_theta2 x E1 E2 I L T w = w / (6 * E2 * I) * (L - x) ^ 3 + spec_C E1 E2 I L T w"

definition spec_y_distributed ::
  "real \<Rightarrow> real \<Rightarrow> real \<Rightarrow> real \<Rightarrow> real \<Rightarrow> real \<Rightarrow> real \<Rightarrow> real" where
  "spec_y_distributed x E1 E2 I L T w =
     (if x < T then spec_y1 x E1 I L w else spec_y2 x E1 E2 I L T w)"

definition spec_theta_distributed ::
  "real \<Rightarrow> real \<Rightarrow> real \<Rightarrow> real \<Rightarrow> real \<Rightarrow> real \<Rightarrow> real \<Rightarrow> real" where
  "spec_theta_distributed x E1 E2 I L T w =
     (if x < T then spec_theta1 x E1 I L w else spec_theta2 x E1 E2 I L T w)"

definition spec_y_point :: "real \<Rightarrow> real \<Rightarrow> real \<Rightarrow> real \<Rightarrow> real \<Rightarrow> real" where
  "spec_y_point x P E1 I a =
     (if x < a then P / (2 * E1 * I) * (a * x ^ 2 - x ^ 3 / 3)
      else P * a ^ 2 / (2 * E1 * I) * (x - a))"

definition spec_theta_point :: "real \<Rightarrow> real \<Rightarrow> real \<Rightarrow> real \<Rightarrow> real \<Rightarrow> real" where
  "spec_theta_point x P E1 I a =
     (if x < a then - P / (E1 * I) * (a * x - x ^ 2 / 2)
      else - P * a ^ 2 / (2 * E1 * I))"

section \<open>Console, output file and figures\<close>

text \<open>
  What the user types at a prompt, as \<open>float(T_input)\<close> sees it: a finite number,
  a text that \<open>float\<close> accepts as \<open>nan\<close> or an infinity (it fails the range test
  \<open>0 < T < L\<close>), or a text on which \<open>float\<close> raises \<open>ValueError\<close>.
\<close>

datatype reply = Number real | NonFinite | Malformed

text \<open>The texts printed or shown as prompts, with the values formatted into them.\<close>

datatype message =
    LoadedMaterials nat
  | LoadedBeams nat
  | LoadedLoads nat
  | NoBeams
  | NoLoads
  | NoMaterials
  | ConfiguringBeam string
  | ApplyingLoad string string
  | EnterT string real
  | EnterTPoint string real real
  | TMustBeBetween real
  | InvalidInput
  | PointLoadOutside real real
  | TBeforePointLoad real real
  | UnsupportedLoadType string
  | ResultsWritten string
  | PlotNoBeams
  | PlotNoLoads
  | PlotNoMaterials
  | PlottingBeam string
  | NoTransitionPoint string string
  | PlottingDistributed string real
  | PlottingPoint string real "real option"
  | UnsupportedPlot string
  | NoComputations
  | Completed

record row =
  r_beam :: string
  r_load :: string
  r_material1 :: string
  r_material2 :: string
  r_x :: real
  r_y :: real
  r_theta :: real

record curve =
  c_label1 :: string
  c_label2 :: string
  c_color :: real
  c_x :: "real list"
  c_theta :: "real list"

record figure =
  f_beam :: string
  f_load :: string
  f_curves :: "curve list"

datatype event =
    Print message
  | Input message
  | OpenFile string
  | WriteHeader
  | WriteRow row
  | ShowFigure figure

text \<open>
  The transition-point store is the dictionary \<open>transition_points\<close>: beam name to the
  list of accepted values, in insertion order.
\<close>

type_synonym store = "(string \<times> real list) list"

record state =
  stdin :: "reply list"
  trace :: "event list"
  transition_points :: store

definition emit :: "event list \<Rightarrow> state \<Rightarrow> state" where
  "emit es st = st\<lparr>trace := trace st @ es\<rparr>"

text \<open>\<open>transition_points.setdefault(k, []).append(T)\<close>\<close>

fun setdefault_append :: "store \<Rightarrow> string \<Rightarrow> real \<Rightarrow> store" where
  "setdefault_append [] k T = [(k, [T])]"
| "setdefault_append ((k', ts) # rest) k T =
     (if k' = k then (k', ts @ [T]) # rest else (k', ts) # setdefault_append rest k T)"

text \<open>\<open>transition_points.get(k, [])\<close>\<close>

definition get_Ts :: "store \<Rightarrow> string \<Rightarrow> real list" where
  "get_Ts tps k = (case map_of tps k of None \<Rightarrow> [] | Some ts \<Rightarrow> ts)"

text \<open>
  \<open>Ts.pop(0)\<close> on a non-empty \<open>Ts\<close>: the list is the object held by the dictionary,
  so the dictionary's entry loses its first element.
\<close>

fun pop_front :: "store \<Rightarrow> string \<Rightarrow> store" where
  "pop_front [] k = []"
| "pop_front ((k', ts) # rest) k =
     (if k' = k then (k', tl ts) # rest else (k', ts) # pop_front rest k)"

section \<open>Grid, rounding and units\<close>

definition step :: real where
  "step = 0.0025"

text \<open>
  \<open>np.arange(start, stop, stp)\<close> in exact arithmetic: \<open>\<lceil>(stop - start) / stp\<rceil>\<close>
  values (none when that is not positive), the \<open>i\<close>-th being \<open>start + i * stp\<close>.
  NumPy evaluates the quotient in double precision.  Where the rounded quotient
  passes an integer that the exact one only reaches, the array of the program has one
  element more than this list: for the lengths \<open>4.0\<close>, \<open>5.0\<close> and \<open>0.0325\<close> the
  program's grid has 1602, 2002 and 15 points, this one 1601, 2001 and 14.  For the
  lengths \<open>10\<close>, \<open>8\<close>, \<open>1.001\<close> and \<open>0.003\<close> used below the two agree.  What is
  proved of the length of the grid is proved of the exact quotient.
\<close>

definition arange :: "real \<Rightarrow> real \<Rightarrow> real \<Rightarrow> real list" where
  "arange start stop stp =
     map (\<lambda>i. start + real i * stp) [0 ..< nat \<lceil>(stop - start) / stp\<rceil>]"

definition x_values :: "real \<Rightarrow> real list" where
  "x_values L = arange 0 (L + step) step"

text \<open>Rounding to the nearest integer, ties to the even one.\<close>

definition rint :: "real \<Rightarrow> int" where
  "rint v =
     (let f = \<lfloor>v\<rfloor> in
      if v - of_int f < 1 / 2 then f
      else if 1 / 2 < v - of_int f then f + 1
      else if even f then f else f + 1)"

definition py_round :: "real \<Rightarrow> nat \<Rightarrow> real" where
  "py_round v n = of_int (rint (v * 10 ^ n)) / 10 ^ n"

definition degrees :: "real \<Rightarrow> real" where
  "degrees r = r * (180 / pi)"

section \<open>Combination sweep (compute\_deflections, lines 127--145 and 172--191)\<close>

text \<open>A \<open>for\<close> loop whose body may raise: the first exception ends the loop.\<close>

fun for_each :: "('a \<Rightarrow> error + 'b) \<Rightarrow> 'a list \<Rightarrow> error + 'b list" where
  "for_each f [] = Inr []"
| "for_each f (x # xs) =
     (case f x of
        Inl e \<Rightarrow> Inl e
      | Inr r \<Rightarrow> (case for_each f xs of Inl e \<Rightarrow> Inl e | Inr rs \<Rightarrow> Inr (r # rs)))"

definition distributed_values ::
  "real option \<Rightarrow> real \<Rightarrow> real \<Rightarrow> real \<Rightarrow> real \<Rightarrow> real \<Rightarrow> real \<Rightarrow> error + real \<times> real" where
  "distributed_values w E1 E2 I L T x =
     (case w of
        None \<Rightarrow> Inl TypeError
      | Some wv \<Rightarrow>
          if x < T
          then (case y1 x E1 I L wv of
                  Inl e \<Rightarrow> Inl e
                | Inr y \<Rightarrow> (case theta1 x E1 I L wv of
                             Inl e \<Rightarrow> Inl e | Inr th \<Rightarrow> Inr (y, th)))
          else (case y2 x E1 E2 I L T wv of
                  Inl e \<Rightarrow> Inl e
                | Inr y \<Rightarrow> (case theta2 x E1 E2 I L T wv of
                             Inl e \<Rightarrow> Inl e | Inr th \<Rightarrow> Inr (y, th))))"

definition point_values ::
  "real option \<Rightarrow> real \<Rightarrow> real \<Rightarrow> real \<Rightarrow> real \<Rightarrow> error + real \<times> real" where
  "point_values P E1 I y_load x =
     (case P of
        None \<Rightarrow> Inl TypeError
      | Some Pv \<Rightarrow>
          if x < y_load
          then (case y_point_load x Pv E1 I y_load of
                  Inl e \<Rightarrow> Inl e
                | Inr y \<Rightarrow> (case theta_point_load x Pv E1 I y_load of
                             Inl e \<Rightarrow> Inl e | Inr th \<Rightarrow> Inr (y, th)))
          else (case y_point_load x Pv E1 I y_load of
                  Inl e \<Rightarrow> Inl e
                | Inr y \<Rightarrow> (case theta_point_load x Pv E1 I y_load of
                             Inl e \<Rightarrow> Inl e | Inr th \<Rightarrow> Inr (y, th))))"

definition mk_row :: "beam \<Rightarrow> load \<Rightarrow> material \<Rightarrow> material \<Rightarrow> real \<Rightarrow> real \<times> real \<Rightarrow> row" where
  "mk_row bm ld m1 m2 x v =
     \<lparr>r_beam = b_name bm, r_load = l_name ld, r_material1 = m_name m1,
      r_material2 = m_name m2, r_x = py_round x 4, r_y = fst v,
      r_theta = py_round (degrees (snd v)) 6\<rparr>"

definition distributed_pair_rows ::
  "beam \<Rightarrow> load \<Rightarrow> real \<Rightarrow> real \<Rightarrow> real \<Rightarrow> material \<times> material \<Rightarrow> error + row list" where
  "distributed_pair_rows bm ld I L T mm =
     for_each
       (\<lambda>x. case distributed_values (l_w ld) (m_E (fst mm)) (m_E (snd mm)) I L T x of
              Inl e \<Rightarrow> Inl e
            | Inr v \<Rightarrow> Inr (mk_row bm ld (fst mm) (snd mm) x v))
       (x_values L)"

definition point_pair_rows ::
  "beam \<Rightarrow> load \<Rightarrow> real \<Rightarrow> real \<Rightarrow> real \<Rightarrow> material \<times> material \<Rightarrow> error + row list" where
  "point_pair_rows bm ld I L y_load mm =
     for_each
       (\<lambda>x. case point_values (l_P ld) (m_E (fst mm)) I y_load x of
              Inl e \<Rightarrow> Inl e
            | Inr v \<Rightarrow> Inr (mk_row bm ld (fst mm) (snd mm) x v))
       (x_values L)"

text \<open>\<open>itertools.product(materials, repeat=2)\<close> is \<open>List.product ms ms\<close>.\<close>

definition distributed_sweep ::
  "material list \<Rightarrow> beam \<Rightarrow> load \<Rightarrow> real \<Rightarrow> real \<Rightarrow> real \<Rightarrow> error + row list" where
  "distributed_sweep ms bm ld I L T =
     (case for_each (distributed_pair_rows bm ld I L T) (List.product ms ms) of
        Inl e \<Rightarrow> Inl e
      | Inr rss \<Rightarrow> Inr (concat rss))"

definition point_sweep ::
  "material list \<Rightarrow> beam \<Rightarrow> load \<Rightarrow> real \<Rightarrow> real \<Rightarrow> real \<Rightarrow> error + row list" where
  "point_sweep ms bm ld I L y_load =
     (case for_each (point_pair_rows bm ld I L y_load) (List.product ms ms) of
        Inl e \<Rightarrow> Inl e
      | Inr rss \<Rightarrow> Inr (concat rss))"

section \<open>Transition resolver (compute\_deflections, lines 113--124 and 157--170)\<close>

text \<open>
  The \<open>while True\<close> loops that ask for \<open>T\<close>.  Each round shows the prompt and reads
  one reply; the loop ends by storing an accepted \<open>T\<close>, or with \<open>EOFError\<close> when the
  input has run out.  The second argument is the input still unread, \<open>stdin st\<close>.
\<close>

fun prompt_distributed :: "beam \<Rightarrow> reply list \<Rightarrow> state \<Rightarrow> error + real \<times> state" where
  "prompt_distributed bm [] st = Inl EOFError"
| "prompt_distributed bm (r # rs) st =
     (let L = b_length bm;
          st1 = emit [Input (EnterT (b_name bm) L)] (st\<lparr>stdin := rs\<rparr>)
      in case r of
           Malformed \<Rightarrow> prompt_distributed bm rs (emit [Print InvalidInput] st1)
         | NonFinite \<Rightarrow> prompt_distributed bm rs (emit [Print (TMustBeBetween L)] st1)
         | Number T \<Rightarrow>
             if 0 < T \<and> T < L
             then Inr (T, st1\<lparr>transition_points :=
                                setdefault_append (transition_points st1) (b_name bm) T\<rparr>)
             else prompt_distributed bm rs (emit [Print (TMustBeBetween L)] st1))"

fun prompt_point :: "beam \<Rightarrow> real \<Rightarrow> reply list \<Rightarrow> state \<Rightarrow> error + real \<times> state" where
  "prompt_point bm y_load [] st = Inl EOFError"
| "prompt_point bm y_load (r # rs) st =
     (let L = b_length bm;
          st1 = emit [Input (EnterTPoint (b_name bm) y_load L)] (st\<lparr>stdin := rs\<rparr>)
      in case r of
           Malformed \<Rightarrow> prompt_point bm y_load rs (emit [Print InvalidInput] st1)
         | NonFinite \<Rightarrow> prompt_point bm y_load rs (emit [Print (TMustBeBetween L)] st1)
         | Number T \<Rightarrow>
             if 0 < T \<and> T < L
             then
               let st2 = (if T < y_load then emit [Print (TBeforePointLoad T y_load)] st1
                          else st1)
               in Inr (T, st2\<lparr>transition_points :=
                                setdefault_append (transition_points st2) (b_name bm) T\<rparr>)
             else prompt_point bm y_load rs (emit [Print (TMustBeBetween L)] st1))"

section \<open>Tabulation (compute\_deflections)\<close>

text \<open>The body of \<open>for load in loads\<close>, lines 107--193.\<close>

definition process_load :: "material list \<Rightarrow> beam \<Rightarrow> load \<Rightarrow> state \<Rightarrow> error + state" where
  "process_load ms bm ld st =
     (let I = moment_of_inertia bm;
          L = b_length bm;
          st0 = emit [Print (ApplyingLoad (l_name ld) (load_type ld))] st
      in if load_type ld = ''distributed''
         then (case prompt_distributed bm (stdin st0) st0 of
                 Inl e \<Rightarrow> Inl e
               | Inr (T, st1) \<Rightarrow>
                   (case distributed_sweep ms bm ld I L T of
                      Inl e \<Rightarrow> Inl e
                    | Inr rows \<Rightarrow> Inr (emit (map WriteRow rows) st1)))
         else if load_type ld = ''point''
         then (case l_a ld of
                 None \<Rightarrow> Inl TypeError
               | Some y_load \<Rightarrow>
                   if \<not> (0 < y_load \<and> y_load < L)
                   then Inr (emit [Print (PointLoadOutside y_load L)] st0)
                   else (case prompt_point bm y_load (stdin st0) st0 of
                           Inl e \<Rightarrow> Inl e
                         | Inr (T, st1) \<Rightarrow>
                             (case point_sweep ms bm ld I L y_load of
                                Inl e \<Rightarrow> Inl e
                              | Inr rows \<Rightarrow> Inr (emit (map WriteRow rows) st1))))
         else Inr (emit [Print (UnsupportedLoadType (load_type ld))] st0))"

fun loads_loop :: "material list \<Rightarrow> beam \<Rightarrow> load list \<Rightarrow> state \<Rightarrow> error + state" where
  "loads_loop ms bm [] st = Inr st"
| "loads_loop ms bm (ld # lds) st =
     (case process_load ms bm ld st of
        Inl e \<Rightarrow> Inl e
      | Inr st' \<Rightarrow> loads_loop ms bm lds st')"

fun beams_loop :: "material list \<Rightarrow> load list \<Rightarrow> beam list \<Rightarrow> state \<Rightarrow> error + state" where
  "beams_loop ms lds [] st = Inr st"
| "beams_loop ms lds (bm # bms) st =
     (case loads_loop ms bm lds (emit [Print (ConfiguringBeam (b_name bm))] st) of
        Inl e \<Rightarrow> Inl e
      | Inr st' \<Rightarrow> beams_loop ms lds bms st')"

text \<open>
  \<open>compute_deflections(library, output_filename)\<close> on the replies \<open>ins\<close>.  The state
  returned holds the dictionary the function returns, the console and file events
  in order, and the input left unread.
\<close>

definition compute_deflections :: "library \<Rightarrow> string \<Rightarrow> reply list \<Rightarrow> error + state" where
  "compute_deflections lib output_filename ins =
     (let ms = get_materials lib;
          bms = get_beams lib;
          lds = get_loads lib;
          st = \<lparr>stdin = ins,
                trace = [Print (LoadedMaterials (length ms)), Print (LoadedBeams (length bms)),
                         Print (LoadedLoads (length lds))],
                transition_points = []\<rparr>
      in if bms = [] then Inr (emit [Print NoBeams] st)
         else if lds = [] then Inr (emit [Print NoLoads] st)
         else if ms = [] then Inr (emit [Print NoMaterials] st)
         else (case beams_loop ms lds bms (emit [OpenFile output_filename, WriteHeader] st) of
                 Inl e \<Rightarrow> Inl e
               | Inr st' \<Rightarrow> Inr (emit [Print (ResultsWritten output_filename)] st')))"

section \<open>Plotting (plot\_deflections)\<close>

definition distributed_theta ::
  "real option \<Rightarrow> real \<Rightarrow> real \<Rightarrow> real \<Rightarrow> real \<Rightarrow> real \<Rightarrow> real \<Rightarrow> error + real" where
  "distributed_theta w E1 E2 I L T x =
     (case w of
        None \<Rightarrow> Inl TypeError
      | Some wv \<Rightarrow>
          (case (if x < T then theta1 x E1 I L wv else theta2 x E1 E2 I L T wv) of
             Inl e \<Rightarrow> Inl e
           | Inr th \<Rightarrow> Inr (degrees th)))"

definition point_theta ::
  "real option \<Rightarrow> real \<Rightarrow> real \<Rightarrow> real option \<Rightarrow> real \<Rightarrow> error + real" where
  "point_theta P E1 I y_load x =
     (case y_load of
        None \<Rightarrow> Inl TypeError
      | Some y \<Rightarrow>
          (case P of
             None \<Rightarrow> Inl TypeError
           | Some Pv \<Rightarrow>
               (case theta_point_load x Pv E1 I y of
                  Inl e \<Rightarrow> Inl e
                | Inr th \<Rightarrow> Inr (degrees th))))"

text \<open>
  One pass of \<open>for material1, material2 in itertools.product(materials, repeat=2)\<close>:
  the pair comes with \<open>color_idx\<close>, and \<open>n\<close> is \<open>num_combinations\<close>.
\<close>

definition distributed_curve ::
  "load \<Rightarrow> real \<Rightarrow> real \<Rightarrow> real \<Rightarrow> nat \<Rightarrow> nat \<times> material \<times> material \<Rightarrow> error + curve" where
  "distributed_curve ld I L T n imm =
     (let material1 = fst (snd imm); material2 = snd (snd imm)
      in case for_each (distributed_theta (l_w ld) (m_E material1) (m_E material2) I L T)
                (x_values L) of
           Inl e \<Rightarrow> Inl e
         | Inr theta_values \<Rightarrow>
             Inr \<lparr>c_label1 = m_name material1, c_label2 = m_name material2,
                  c_color = real (fst imm) / real n, c_x = x_values L,
                  c_theta = theta_values\<rparr>)"

definition point_curve ::
  "load \<Rightarrow> real \<Rightarrow> real \<Rightarrow> nat \<Rightarrow> nat \<times> material \<times> material \<Rightarrow> error + curve" where
  "point_curve ld I L n imm =
     (let material1 = fst (snd imm); material2 = snd (snd imm)
      in case for_each (point_theta (l_P ld) (m_E material1) I (l_a ld)) (x_values L) of
           Inl e \<Rightarrow> Inl e
         | Inr theta_values \<Rightarrow>
             Inr \<lparr>c_label1 = m_name material1, c_label2 = m_name material2,
                  c_color = real (fst imm) / real n, c_x = x_values L,
                  c_theta = theta_values\<rparr>)"

text \<open>The body of \<open>for load in loads\<close>, lines 232--333.\<close>

definition plot_load :: "material list \<Rightarrow> beam \<Rightarrow> load \<Rightarrow> state \<Rightarrow> error + state" where
  "plot_load ms bm ld st =
     (let I = moment_of_inertia bm;
          L = b_length bm;
          num_combinations = length ms ^ 2
      in if load_type ld = ''distributed''
         then (case get_Ts (transition_points st) (b_name bm) of
                 [] \<Rightarrow> Inr (emit [Print (NoTransitionPoint (b_name bm) (l_name ld))] st)
               | T # rest \<Rightarrow>
                   (let st1 = emit [Print (PlottingDistributed (l_name ld) T)]
                                (st\<lparr>transition_points :=
                                      pop_front (transition_points st) (b_name bm)\<rparr>)
                    in case for_each (distributed_curve ld I L T num_combinations)
                              (enumerate 0 (List.product ms ms)) of
                         Inl e \<Rightarrow> Inl e
                       | Inr cs \<Rightarrow>
                           Inr (emit [ShowFigure \<lparr>f_beam = b_name bm, f_load = l_name ld,
                                                  f_curves = cs\<rparr>] st1)))
         else if load_type ld = ''point''
         then (case get_Ts (transition_points st) (b_name bm) of
                 [] \<Rightarrow> Inr (emit [Print (NoTransitionPoint (b_name bm) (l_name ld))] st)
               | T # rest \<Rightarrow>
                   (let st1 = emit [Print (PlottingPoint (l_name ld) T (l_a ld))]
                                (st\<lparr>transition_points :=
                                      pop_front (transition_points st) (b_name bm)\<rparr>)
                    in case for_each (point_curve ld I L num_combinations)
                              (enumerate 0 (List.product ms ms)) of
                         Inl e \<Rightarrow> Inl e
                       | Inr cs \<Rightarrow>
                           Inr (emit [ShowFigure \<lparr>f_beam = b_name bm, f_load = l_name ld,
                                                  f_curves = cs\<rparr>] st1)))
         else Inr (emit [Print (UnsupportedPlot (load_type ld))] st))"

fun plot_loads_loop :: "material list \<Rightarrow> beam \<Rightarrow> load list \<Rightarrow> state \<Rightarrow> error + state" where
  "plot_loads_loop ms bm [] st = Inr st"
| "plot_loads_loop ms bm (ld # lds) st =
     (case plot_load ms bm ld st of
        Inl e \<Rightarrow> Inl e
      | Inr st' \<Rightarrow> plot_loads_loop ms bm lds st')"

fun plot_beams_loop :: "material list \<Rightarrow> load list \<Rightarrow> beam list \<Rightarrow> state \<Rightarrow> error + state" where
  "plot_beams_loop ms lds [] st = Inr st"
| "plot_beams_loop ms lds (bm # bms) st =
     (case plot_loads_loop ms bm lds (emit [Print (PlottingBeam (b_name bm))] st) of
        Inl e \<Rightarrow> Inl e
      | Inr st' \<Rightarrow> plot_beams_loop ms lds bms st')"

text \<open>
  \<open>plot_deflections(library, transition_points)\<close>: the dictionary is the one in the
  state, and the state returned holds it as the call leaves it.
\<close>

definition plot_deflections :: "library \<Rightarrow> state \<Rightarrow> error + state" where
  "plot_deflections lib st =
     (let ms = get_materials lib;
          bms = get_beams lib;
          lds = get_loads lib
      in if bms = [] then Inr (emit [Print PlotNoBeams] st)
         else if lds = [] then Inr (emit [Print PlotNoLoads] st)
         else if ms = [] then Inr (emit [Print PlotNoMaterials] st)
         else plot_beams_loop ms lds bms st)"

definition main :: "library \<Rightarrow> reply list \<Rightarrow> error + state" where
  "main lib ins =
     (case compute_deflections lib ''deflection_results.csv'' ins of
        Inl e \<Rightarrow> Inl e
      | Inr st \<Rightarrow>
          if transition_points st = [] then Inr (emit [Print NoComputations] st)
          else (case plot_deflections lib st of
                  Inl e \<Rightarrow> Inl e
                | Inr st' \<Rightarrow> Inr (emit [Print Completed] st')))"

section \<open>The default catalog (BeamLibrary.initialize\_default\_library)\<close>

definition default_materials :: "material list" where
  "default_materials =
     [\<lparr>m_name = ''Steel'', m_E = 200000000000\<rparr>,
      \<lparr>m_name = ''Aluminum'', m_E = 69000000000\<rparr>,
      \<lparr>m_name = ''Titanium'', m_E = 116000000000\<rparr>]"

definition default_beams :: "beam list" where
  "default_beams =
     [\<lparr>b_name = ''Beam1'', b_length = 10, b_width = 3 / 10, b_thickness = 5 / 1000\<rparr>,
      \<lparr>b_name = ''Beam2'', b_length = 8, b_width = 25 / 100, b_thickness = 4 / 1000\<rparr>]"

definition default_loads :: "load list" where
  "default_loads =
     [\<lparr>l_name = ''Uniform Load'', load_type = ''distributed'', l_w = Some 1000,
       l_P = None, l_a = None\<rparr>,
      \<lparr>l_name = ''Heavy Uniform Load'', load_type = ''distributed'', l_w = Some 2000,
       l_P = None, l_a = None\<rparr>,
      \<lparr>l_name = ''Point Load 1'', load_type = ''point'', l_w = None,
       l_P = Some 5000, l_a = Some 5\<rparr>]"

definition default_library :: library where
  "default_library =
     \<lparr>materials = default_materials, beams = default_beams, loads = default_loads\<rparr>"

text \<open>
  A catalog the menu of beam\_library.py can build (\<open>add_new_load\<close> accepts every
  position \<open>a \<ge> 0\<close>): one material, \<open>Beam1\<close> of length 10, and a point load at
  \<open>a = 12\<close> listed before a distributed load.
\<close>

definition outside_point_catalog :: library where
  "outside_point_catalog =
     \<lparr>materials = [\<lparr>m_name = ''Steel'', m_E = 200000000000\<rparr>],
      beams = [\<lparr>b_name = ''Beam1'', b_length = 10, b_width = 3 / 10, b_thickness = 5 / 1000\<rparr>],
      loads = [\<lparr>l_name = ''Point Load 1'', load_type = ''point'', l_w = None,
                l_P = Some 5000, l_a = Some 12\<rparr>,
               \<lparr>l_name = ''Uniform Load'', load_type = ''distributed'', l_w = Some 1000,
                l_P = None, l_a = None\<rparr>]\<rparr>"

section \<open>Observations on a run\<close>

text \<open>The texts printed and the prompts shown, in order.\<close>

fun messages :: "event list \<Rightarrow> message list" where
  "messages [] = []"
| "messages (Print m # es) = m # messages es"
| "messages (Input m # es) = m # messages es"
| "messages (e # es) = messages es"

text \<open>The figures shown, in order.\<close>

fun figures_shown :: "event list \<Rightarrow> figure list" where
  "figures_shown [] = []"
| "figures_shown (ShowFigure f # es) = f # figures_shown es"
| "figures_shown (e # es) = figures_shown es"

text \<open>The data rows written to the output file, in order.\<close>

fun rows_written :: "event list \<Rightarrow> row list" where
  "rows_written [] = []"
| "rows_written (WriteRow r # es) = r # rows_written es"
| "rows_written (e # es) = rows_written es"

text \<open>
  One store comes from another by consumption: entry by entry the same beam name,
  with a suffix of the values that were there.
\<close>

definition consumed :: "store \<Rightarrow> store \<Rightarrow> bool" where
  "consumed after before \<longleftrightarrow>
     list_all2 (\<lambda>a b. fst a = fst b \<and> suffix (snd a) (snd b)) after before"






section \<open>Loops, traces and the store\<close>

lemma for_each_all2: "for_each f xs = Inr rs \<Longrightarrow> list_all2 (\<lambda>x r. f x = Inr r) xs rs"
  by (induction xs arbitrary: rs) (auto split: sum.splits)

lemma for_each_length: "for_each f xs = Inr rs \<Longrightarrow> length rs = length xs"
  by (drule for_each_all2) (rule list_all2_lengthD [symmetric])

lemma for_each_map_sum:
  "map_sum id (map g) (for_each f xs) = for_each (\<lambda>x. map_sum id g (f x)) xs"
  by (induction xs) (auto split: sum.splits)

lemma for_each_Inr:
  "(\<And>x. x \<in> set xs \<Longrightarrow> f x = Inr (g x)) \<Longrightarrow> for_each f xs = Inr (map g xs)"
  by (induction xs) auto

lemma messages_append: "messages (xs @ ys) = messages xs @ messages ys"
  by (induction xs rule: messages.induct) auto

lemma figures_shown_append: "figures_shown (xs @ ys) = figures_shown xs @ figures_shown ys"
  by (induction xs rule: figures_shown.induct) auto

lemma rows_written_append: "rows_written (xs @ ys) = rows_written xs @ rows_written ys"
  by (induction xs rule: rows_written.induct) auto

lemma messages_rows: "messages (map WriteRow rs) = []"
  by (induction rs) auto

lemma messages_rows_o: "messages (map (WriteRow \<circ> f) xs) = []"
  by (induction xs) auto

lemma messages_rows_fun: "messages (map (\<lambda>x. WriteRow (f x)) xs) = []"
  by (induction xs) auto

lemma rows_written_rows_fun: "rows_written (map (\<lambda>x. WriteRow (f x)) xs) = map f xs"
  by (induction xs) auto

lemma figures_shown_rows: "figures_shown (map WriteRow rs) = []"
  by (induction rs) auto

lemma figures_shown_rows_o: "figures_shown (map (WriteRow \<circ> f) xs) = []"
  by (induction xs) auto

lemma rows_written_rows: "rows_written (map WriteRow rs) = rs"
  by (induction rs) auto




lemma consumed_keys: "consumed s' s \<Longrightarrow> map fst s' = map fst s"
  unfolding consumed_def
  by (induction s' s rule: list_all2_induct) auto

lemma consumed_get_Ts: "consumed s' s \<Longrightarrow> suffix (get_Ts s' k) (get_Ts s k)"
  unfolding consumed_def
  by (induction s' s rule: list_all2_induct) (auto simp: get_Ts_def)

lemma in_product_fst:
  "mm \<in> set (List.product ms ms) \<Longrightarrow> fst mm \<in> set ms \<and> snd mm \<in> set ms"
  by (cases mm) simp

section \<open>The grid\<close>

lemma length_x_values: "0 \<le> L \<Longrightarrow> length (x_values L) = nat (\<lceil>L / step\<rceil> + 1)"
  by (simp add: x_values_def arange_def step_def add_divide_distrib)

lemma x_values_nth: "i < length (x_values L) \<Longrightarrow> x_values L ! i = real i * step"
  by (simp add: x_values_def arange_def)

text \<open>
  When the length is not a multiple of the step, the length itself is no grid point
  and the last grid point lies beyond the end of the beam.
\<close>

lemma x_values_overshoot:
  assumes "0 < L" "\<forall>k::nat. L \<noteq> real k * step"
  shows "L \<notin> set (x_values L) \<and> L < last (x_values L)"
proof -
  have "0 < L / step"
    using assms(1) by (simp add: step_def)
  then have pos: "0 < \<lceil>L / step\<rceil>"
    by (simp only: zero_less_ceiling)
  have "0 < length (x_values L)"
    using assms(1) pos length_x_values [of L] by simp
  then have ne: "x_values L \<noteq> []"
    by simp
  have "L \<notin> set (x_values L)"
    using assms(2) by (auto simp: x_values_def arange_def)
  moreover have "last (x_values L) = real (nat \<lceil>L / step\<rceil>) * step"
    using ne assms(1)
    by (simp add: last_conv_nth x_values_nth length_x_values nat_add_distrib step_def)
  moreover have "L \<le> real (nat \<lceil>L / step\<rceil>) * step"
    using assms(1) by (simp add: step_def)
  ultimately show ?thesis
    using assms(2) [rule_format, of "nat \<lceil>L / step\<rceil>"] by simp
qed

lemma length_concat_const:
  "\<forall>rs \<in> set rss. length rs = n \<Longrightarrow> length (concat rss) = length rss * n"
  by (induction rss) auto

lemma distributed_pair_rows_length:
  "distributed_pair_rows bm ld I L T mm = Inr rs \<Longrightarrow> length rs = length (x_values L)"
  unfolding distributed_pair_rows_def by (rule for_each_length)

text \<open>
  A distributed-load sweep that returns has visited \<open>n\<^sup>2\<close> ordered pairs of materials
  and written one row for each grid point of each pair.
\<close>

lemma distributed_sweep_pairs:
  assumes "for_each (distributed_pair_rows bm ld I L T) (List.product ms ms) = Inr rss"
  shows "length rss = length ms ^ 2 \<and> (\<forall>rs \<in> set rss. length rs = length (x_values L))"
proof -
  have "\<forall>rs \<in> set rss. length rs = length (x_values L)"
  proof
    fix rs assume "rs \<in> set rss"
    then obtain i where i: "i < length rss" "rs = rss ! i"
      by (auto simp: in_set_conv_nth)
    with for_each_all2 [OF assms]
    have "distributed_pair_rows bm ld I L T (List.product ms ms ! i) = Inr rs"
      by (simp add: list_all2_conv_all_nth)
    then show "length rs = length (x_values L)"
      by (rule distributed_pair_rows_length)
  qed
  moreover have "length rss = length ms ^ 2"
    using for_each_length [OF assms] by (simp add: power2_eq_square)
  ultimately show ?thesis by simp
qed

lemma distributed_sweep_length:
  assumes "distributed_sweep ms bm ld I L T = Inr rows"
  shows "length rows = length ms ^ 2 * length (x_values L)"
proof -
  from assms obtain rss where
    rss: "for_each (distributed_pair_rows bm ld I L T) (List.product ms ms) = Inr rss"
    and rows: "rows = concat rss"
    by (auto simp: distributed_sweep_def split: sum.splits)
  from distributed_sweep_pairs [OF rss] rows show ?thesis
    using length_concat_const [of rss "length (x_values L)"] by simp
qed

section \<open>The kernel against the closed forms\<close>

lemma kernel_y1: "E1 \<noteq> 0 \<Longrightarrow> I \<noteq> 0 \<Longrightarrow> y1 x E1 I L w = Inr (spec_y1 x E1 I L w)"
  by (simp add: y1_def spec_y1_def)

lemma kernel_y2:
  "E1 \<noteq> 0 \<Longrightarrow> E2 \<noteq> 0 \<Longrightarrow> I \<noteq> 0 \<Longrightarrow> y2 x E1 E2 I L T w = Inr (spec_y2 x E1 E2 I L T w)"
  by (simp add: y2_def spec_y2_def spec_C_def Let_def)

lemma kernel_theta1:
  "E1 \<noteq> 0 \<Longrightarrow> I \<noteq> 0 \<Longrightarrow> theta1 x E1 I L w = Inr (spec_theta1 x E1 I L w)"
  by (simp add: theta1_def spec_theta1_def)

lemma kernel_theta2:
  "E1 \<noteq> 0 \<Longrightarrow> E2 \<noteq> 0 \<Longrightarrow> I \<noteq> 0 \<Longrightarrow>
     theta2 x E1 E2 I L T w = Inr (spec_theta2 x E1 E2 I L T w)"
  by (simp add: theta2_def spec_theta2_def spec_C_def Let_def)

lemma kernel_y_point:
  "E1 \<noteq> 0 \<Longrightarrow> I \<noteq> 0 \<Longrightarrow> y_point_load x P E1 I a = Inr (spec_y_point x P E1 I a)"
  by (simp add: y_point_load_def spec_y_point_def y_point_load_before_def
        y_point_load_from_def)

lemma kernel_theta_point:
  "E1 \<noteq> 0 \<Longrightarrow> I \<noteq> 0 \<Longrightarrow> theta_point_load x P E1 I a = Inr (spec_theta_point x P E1 I a)"
  by (simp add: theta_point_load_def spec_theta_point_def theta_point_load_before_def
        theta_point_load_from_def)

lemma distributed_values_ok:
  "E1 \<noteq> 0 \<Longrightarrow> E2 \<noteq> 0 \<Longrightarrow> I \<noteq> 0 \<Longrightarrow>
     distributed_values (Some w) E1 E2 I L T x =
       Inr (spec_y_distributed x E1 E2 I L T w, spec_theta_distributed x E1 E2 I L T w)"
  by (simp add: distributed_values_def spec_y_distributed_def spec_theta_distributed_def
        kernel_y1 kernel_y2 kernel_theta1 kernel_theta2)

lemma point_values_ok:
  "E1 \<noteq> 0 \<Longrightarrow> I \<noteq> 0 \<Longrightarrow>
     point_values (Some P) E1 I a x = Inr (spec_y_point x P E1 I a, spec_theta_point x P E1 I a)"
  by (simp add: point_values_def kernel_y_point kernel_theta_point)

lemma distributed_theta_ok:
  "E1 \<noteq> 0 \<Longrightarrow> E2 \<noteq> 0 \<Longrightarrow> I \<noteq> 0 \<Longrightarrow>
     distributed_theta (Some w) E1 E2 I L T x =
       Inr (degrees (spec_theta_distributed x E1 E2 I L T w))"
  by (simp add: distributed_theta_def spec_theta_distributed_def kernel_theta1 kernel_theta2)

lemma point_theta_ok:
  "E1 \<noteq> 0 \<Longrightarrow> I \<noteq> 0 \<Longrightarrow>
     point_theta (Some P) E1 I (Some a) x = Inr (degrees (spec_theta_point x P E1 I a))"
  by (simp add: point_theta_def kernel_theta_point)

text \<open>Continuity of the closed forms at the transition, and their collapse for one modulus.\<close>

lemma spec_continuous_at_T:
  "E1 \<noteq> 0 \<Longrightarrow> E2 \<noteq> 0 \<Longrightarrow> I \<noteq> 0 \<Longrightarrow>
     spec_theta1 T E1 I L w = spec_theta2 T E1 E2 I L T w \<and>
     spec_y1 T E1 I L w = spec_y2 T E1 E2 I L T w"
  by (simp add: spec_theta1_def spec_theta2_def spec_y1_def spec_y2_def spec_C_def field_simps)

lemma spec_equal_moduli:
  "E \<noteq> 0 \<Longrightarrow> I \<noteq> 0 \<Longrightarrow>
     spec_theta2 x E E I L T w = spec_theta1 x E I L w \<and>
     spec_y2 x E E I L T w = spec_y1 x E I L w"
  by (simp add: spec_theta1_def spec_theta2_def spec_y1_def spec_y2_def spec_C_def field_simps)

text \<open>
  The point-load rotation is continuous at the load; the deflection is not: its two
  branch bodies differ at \<open>x = a\<close> by \<open>P a\<^sup>3 / (3 E\<^sub>1 I)\<close>.
\<close>

lemma theta_point_load_branches_meet:
  "E1 \<noteq> 0 \<Longrightarrow> I \<noteq> 0 \<Longrightarrow>
     theta_point_load_before a P E1 I a = theta_point_load_from a P E1 I a"
  by (simp add: theta_point_load_before_def theta_point_load_from_def field_simps power2_eq_square)

lemma y_point_load_branches_gap:
  "E1 \<noteq> 0 \<Longrightarrow> I \<noteq> 0 \<Longrightarrow>
     y_point_load_before a P E1 I a - y_point_load_from a P E1 I a = P * a ^ 3 / (3 * E1 * I)"
  by (simp add: y_point_load_before_def y_point_load_from_def field_simps power2_eq_square
        power3_eq_cube)

section \<open>Runs that do not raise\<close>

lemma prompt_distributed_accept:
  "0 < T \<Longrightarrow> T < b_length bm \<Longrightarrow>
   prompt_distributed bm (Number T # rs) st =
     Inr (T, st\<lparr>stdin := rs, trace := trace st @ [Input (EnterT (b_name bm) (b_length bm))],
                 transition_points := setdefault_append (transition_points st) (b_name bm) T\<rparr>)"
  by (simp add: Let_def emit_def)

lemma prompt_point_accept:
  "0 < T \<Longrightarrow> T < b_length bm \<Longrightarrow>
   prompt_point bm a (Number T # rs) st =
     Inr (T, st\<lparr>stdin := rs,
                 trace := trace st @ Input (EnterTPoint (b_name bm) a (b_length bm)) #
                            (if T < a then [Print (TBeforePointLoad T a)] else []),
                 transition_points := setdefault_append (transition_points st) (b_name bm) T\<rparr>)"
  by (simp add: Let_def emit_def)

lemma distributed_sweep_ok:
  assumes "\<forall>m \<in> set ms. m_E m \<noteq> 0" "I \<noteq> 0" "l_w ld = Some w"
  shows "distributed_sweep ms bm ld I L T =
     Inr (concat (map (\<lambda>mm. map (\<lambda>x. mk_row bm ld (fst mm) (snd mm) x
                    (spec_y_distributed x (m_E (fst mm)) (m_E (snd mm)) I L T w,
                     spec_theta_distributed x (m_E (fst mm)) (m_E (snd mm)) I L T w))
                  (x_values L)) (List.product ms ms)))"
proof -
  have "for_each (distributed_pair_rows bm ld I L T) (List.product ms ms) =
      Inr (map (\<lambda>mm. map (\<lambda>x. mk_row bm ld (fst mm) (snd mm) x
                    (spec_y_distributed x (m_E (fst mm)) (m_E (snd mm)) I L T w,
                     spec_theta_distributed x (m_E (fst mm)) (m_E (snd mm)) I L T w))
                  (x_values L)) (List.product ms ms))"
  proof (rule for_each_Inr)
    fix mm assume "mm \<in> set (List.product ms ms)"
    then have "m_E (fst mm) \<noteq> 0" "m_E (snd mm) \<noteq> 0"
      using assms(1) in_product_fst [of mm ms] by auto
    then show "distributed_pair_rows bm ld I L T mm =
       Inr (map (\<lambda>x. mk_row bm ld (fst mm) (snd mm) x
                    (spec_y_distributed x (m_E (fst mm)) (m_E (snd mm)) I L T w,
                     spec_theta_distributed x (m_E (fst mm)) (m_E (snd mm)) I L T w))
                  (x_values L))"
      unfolding distributed_pair_rows_def
      by (intro for_each_Inr) (simp add: assms(2,3) distributed_values_ok)
  qed
  then show ?thesis by (simp add: distributed_sweep_def)
qed

lemma point_sweep_ok:
  assumes "\<forall>m \<in> set ms. m_E m \<noteq> 0" "I \<noteq> 0" "l_P ld = Some P"
  shows "point_sweep ms bm ld I L a =
     Inr (concat (map (\<lambda>mm. map (\<lambda>x. mk_row bm ld (fst mm) (snd mm) x
                    (spec_y_point x P (m_E (fst mm)) I a,
                     spec_theta_point x P (m_E (fst mm)) I a))
                  (x_values L)) (List.product ms ms)))"
proof -
  have "for_each (point_pair_rows bm ld I L a) (List.product ms ms) =
      Inr (map (\<lambda>mm. map (\<lambda>x. mk_row bm ld (fst mm) (snd mm) x
                    (spec_y_point x P (m_E (fst mm)) I a,
                     spec_theta_point x P (m_E (fst mm)) I a))
                  (x_values L)) (List.product ms ms))"
  proof (rule for_each_Inr)
    fix mm assume "mm \<in> set (List.product ms ms)"
    then have "m_E (fst mm) \<noteq> 0"
      using assms(1) in_product_fst [of mm ms] by auto
    then show "point_pair_rows bm ld I L a mm =
       Inr (map (\<lambda>x. mk_row bm ld (fst mm) (snd mm) x
                    (spec_y_point x P (m_E (fst mm)) I a,
                     spec_theta_point x P (m_E (fst mm)) I a))
                  (x_values L))"
      unfolding point_pair_rows_def
      by (intro for_each_Inr) (simp add: assms(2,3) point_values_ok)
  qed
  then show ?thesis by (simp add: point_sweep_def)
qed

lemma point_curve_ok:
  assumes "m_E (fst (snd imm)) \<noteq> 0" "I \<noteq> 0" "l_P ld = Some P" "l_a ld = Some a"
  shows "point_curve ld I L n imm =
     Inr \<lparr>c_label1 = m_name (fst (snd imm)), c_label2 = m_name (snd (snd imm)),
          c_color = real (fst imm) / real n, c_x = x_values L,
          c_theta = map (\<lambda>x. degrees (spec_theta_point x P (m_E (fst (snd imm))) I a))
                      (x_values L)\<rparr>"
proof -
  have "for_each (point_theta (l_P ld) (m_E (fst (snd imm))) I (l_a ld)) (x_values L) =
        Inr (map (\<lambda>x. degrees (spec_theta_point x P (m_E (fst (snd imm))) I a)) (x_values L))"
    by (intro for_each_Inr) (simp add: assms point_theta_ok)
  then show ?thesis
    by (simp add: point_curve_def Let_def)
qed


section \<open>Plotting and the store\<close>















section \<open>Deflection kernel: claims C1, C2, C3 and C6\<close>

text \<open>
  C1.  The deflection kernel computes the closed forms of the specification as they
  are given there.  When no divisor is zero, \<open>y1\<close>, \<open>theta1\<close>, \<open>y2\<close> and \<open>theta2\<close>
  return the distributed-load expressions (\<open>y2\<close> and \<open>theta2\<close> with the coupling
  coefficient \<open>C\<close>), and \<open>y_point_load\<close> and \<open>theta_point_load\<close> return the point-load
  expressions.  The sweep uses the first pair of functions for \<open>x < T\<close> and the second
  from \<open>T\<close> on, so a position equal to \<open>T\<close> is evaluated with \<open>y2\<close> and \<open>theta2\<close>, in
  tabulation and in plotting; a position equal to the load position \<open>a\<close> is evaluated
  with the second point-load expressions.
\<close>

theorem kernel_matches_closed_forms:
  assumes "E1 \<noteq> 0" "E2 \<noteq> 0" "I \<noteq> 0"
  shows "y1 x E1 I L w = Inr (spec_y1 x E1 I L w) \<and>
         theta1 x E1 I L w = Inr (spec_theta1 x E1 I L w) \<and>
         y2 x E1 E2 I L T w = Inr (spec_y2 x E1 E2 I L T w) \<and>
         theta2 x E1 E2 I L T w = Inr (spec_theta2 x E1 E2 I L T w) \<and>
         y_point_load x P E1 I a = Inr (spec_y_point x P E1 I a) \<and>
         theta_point_load x P E1 I a = Inr (spec_theta_point x P E1 I a) \<and>
         distributed_values (Some w) E1 E2 I L T x =
           Inr (spec_y_distributed x E1 E2 I L T w, spec_theta_distributed x E1 E2 I L T w) \<and>
         distributed_values (Some w) E1 E2 I L T T =
           Inr (spec_y2 T E1 E2 I L T w, spec_theta2 T E1 E2 I L T w) \<and>
         distributed_theta (Some w) E1 E2 I L T T = Inr (degrees (spec_theta2 T E1 E2 I L T w)) \<and>
         point_values (Some P) E1 I a a =
           Inr (P * a ^ 2 / (2 * E1 * I) * (a - a), - P * a ^ 2 / (2 * E1 * I)) \<and>
         point_theta (Some P) E1 I (Some a) a = Inr (degrees (- P * a ^ 2 / (2 * E1 * I)))"
  using assms
  by (simp add: kernel_y1 kernel_theta1 kernel_y2 kernel_theta2 kernel_y_point
        kernel_theta_point distributed_values_ok distributed_theta_ok point_values_ok
        point_theta_ok spec_y_distributed_def spec_theta_distributed_def spec_y_point_def
        spec_theta_point_def)

theorem kernel_matches_closed_forms_witness:
  "(200000000000 :: real) \<noteq> 0 \<and> (69000000000 :: real) \<noteq> 0 \<and> (3125 / 10 ^ 12 :: real) \<noteq> 0 \<and>
   y1 5 200000000000 (3125 / 10 ^ 12) 10 1000 =
     Inr (spec_y1 5 200000000000 (3125 / 10 ^ 12) 10 1000) \<and>
   y2 5 200000000000 69000000000 (3125 / 10 ^ 12) 10 5 1000 =
     Inr (spec_y2 5 200000000000 69000000000 (3125 / 10 ^ 12) 10 5 1000) \<and>
   distributed_values (Some 1000) 200000000000 69000000000 (3125 / 10 ^ 12) 10 5 5 =
     Inr (spec_y2 5 200000000000 69000000000 (3125 / 10 ^ 12) 10 5 1000,
          spec_theta2 5 200000000000 69000000000 (3125 / 10 ^ 12) 10 5 1000) \<and>
   point_values (Some 5000) 200000000000 (3125 / 10 ^ 12) 5 5 = Inr (0, - 100)"
proof -
  have h: "(200000000000 :: real) \<noteq> 0" "(69000000000 :: real) \<noteq> 0"
    "(3125 / 10 ^ 12 :: real) \<noteq> 0"
    by simp_all
  note k = kernel_matches_closed_forms [OF h, of 5 10 1000 5 5000 5]
  from k have a: "y1 5 200000000000 (3125 / 10 ^ 12) 10 1000 =
      Inr (spec_y1 5 200000000000 (3125 / 10 ^ 12) 10 1000)"
    by blast
  from k have b: "y2 5 200000000000 69000000000 (3125 / 10 ^ 12) 10 5 1000 =
      Inr (spec_y2 5 200000000000 69000000000 (3125 / 10 ^ 12) 10 5 1000)"
    by blast
  from k have c: "distributed_values (Some 1000) 200000000000 69000000000 (3125 / 10 ^ 12) 10 5 5 =
      Inr (spec_y2 5 200000000000 69000000000 (3125 / 10 ^ 12) 10 5 1000,
           spec_theta2 5 200000000000 69000000000 (3125 / 10 ^ 12) 10 5 1000)"
    by blast
  from k have "point_values (Some 5000) 200000000000 (3125 / 10 ^ 12) 5 5 =
      Inr (5000 * 5 ^ 2 / (2 * 200000000000 * (3125 / 10 ^ 12)) * (5 - 5),
           - 5000 * 5 ^ 2 / (2 * 200000000000 * (3125 / 10 ^ 12)))"
    by blast
  then have d: "point_values (Some 5000) 200000000000 (3125 / 10 ^ 12) 5 5 = Inr (0, - 100)"
    by simp
  from h a b c d show ?thesis
    by blast
qed

text \<open>
  C2.  For positive moduli \<open>E1\<close> and \<open>E2\<close>, positive \<open>I\<close>, \<open>w\<close> and \<open>L\<close>, and a
  transition \<open>0 < T < L\<close>, the two distributed-load branches agree at the
  transition: \<open>theta1\<close> and \<open>theta2\<close> return the same rotation at \<open>x = T\<close>, and \<open>y1\<close>
  and \<open>y2\<close> the same deflection, in exact arithmetic; none of the four calls raises.
\<close>

theorem distributed_branches_agree_at_T:
  assumes "0 < E1" "0 < E2" "0 < I" "0 < w" "0 < L" "0 < T" "T < L"
  shows "theta1 T E1 I L w = theta2 T E1 E2 I L T w \<and>
         y1 T E1 I L w = y2 T E1 E2 I L T w \<and>
         theta1 T E1 I L w = Inr (spec_theta1 T E1 I L w) \<and>
         y1 T E1 I L w = Inr (spec_y1 T E1 I L w)"
proof -
  have ne: "E1 \<noteq> 0" "E2 \<noteq> 0" "I \<noteq> 0"
    using assms by simp_all
  from spec_continuous_at_T [OF ne] show ?thesis
    by (simp add: kernel_y1 kernel_theta1 kernel_y2 kernel_theta2 ne)
qed

theorem distributed_branches_agree_at_T_witness:
  "(0 :: real) < 200000000000 \<and> (0 :: real) < 69000000000 \<and> (0 :: real) < 3125 / 10 ^ 12 \<and>
   (0 :: real) < 1000 \<and> (0 :: real) < 10 \<and> (0 :: real) < 5 \<and> (5 :: real) < 10 \<and>
   theta1 5 200000000000 (3125 / 10 ^ 12) 10 1000 =
     theta2 5 200000000000 69000000000 (3125 / 10 ^ 12) 10 5 1000 \<and>
   y1 5 200000000000 (3125 / 10 ^ 12) 10 1000 =
     y2 5 200000000000 69000000000 (3125 / 10 ^ 12) 10 5 1000 \<and>
   theta1 5 200000000000 (3125 / 10 ^ 12) 10 1000 =
     Inr (spec_theta1 5 200000000000 (3125 / 10 ^ 12) 10 1000) \<and>
   y1 5 200000000000 (3125 / 10 ^ 12) 10 1000 =
     Inr (spec_y1 5 200000000000 (3125 / 10 ^ 12) 10 1000)"
proof -
  have h: "(0 :: real) < 200000000000" "(0 :: real) < 69000000000"
    "(0 :: real) < 3125 / 10 ^ 12" "(0 :: real) < 1000" "(0 :: real) < 10" "(0 :: real) < 5"
    "(5 :: real) < 10"
    by simp_all
  from distributed_branches_agree_at_T [OF h] h show ?thesis
    by blast
qed

text \<open>
  C3.  The claim is that the point-load deflection is continuous at the load
  position.  The code breaks it: for the default catalog (\<open>Beam1\<close>, \<open>Steel\<close>,
  \<open>Point Load 1\<close> with \<open>P = 5000\<close> at \<open>a = 5\<close>) the body of the \<open>x < a\<close> branch gives
  \<open>1000 / 3\<close> at \<open>x = a\<close> and the last grid point before the load is evaluated to
  about \<open>333.08\<close>, while \<open>y_point_load\<close> returns \<open>0\<close> at \<open>x = a\<close>.  The rotation is
  continuous there: both branch bodies give \<open>- 100\<close>.
\<close>

theorem point_load_deflection_jumps:
  "y_point_load_before 5 5000 200000000000 (moment_of_inertia (hd default_beams)) 5 = 1000 / 3 \<and>
   y_point_load (1999 / 400) 5000 200000000000 (moment_of_inertia (hd default_beams)) 5 =
     Inr (15988000001 / 48000000) \<and>
   y_point_load 5 5000 200000000000 (moment_of_inertia (hd default_beams)) 5 = Inr 0 \<and>
   theta_point_load_before 5 5000 200000000000 (moment_of_inertia (hd default_beams)) 5 = - 100 \<and>
   theta_point_load 5 5000 200000000000 (moment_of_inertia (hd default_beams)) 5 = Inr (- 100)"
  by code_simp

text \<open>
  C6.  When both segments have the same modulus \<open>E\<close>, the second distributed-load
  branch is the first one: for positive \<open>E\<close>, \<open>I\<close>, \<open>w\<close> and \<open>L\<close>, a transition
  \<open>0 < T < L\<close> and every position \<open>0 \<le> x \<le> L\<close>, \<open>y2\<close> returns what \<open>y1\<close> returns and
  \<open>theta2\<close> what \<open>theta1\<close> returns, so the values the sweep computes are those of
  the first branch on both sides of \<open>T\<close>.
\<close>

theorem equal_moduli_one_curve:
  assumes "0 < E" "0 < I" "0 < w" "0 < L" "0 < T" "T < L" "0 \<le> x" "x \<le> L"
  shows "y2 x E E I L T w = y1 x E I L w \<and>
         theta2 x E E I L T w = theta1 x E I L w \<and>
         distributed_values (Some w) E E I L T x = Inr (spec_y1 x E I L w, spec_theta1 x E I L w)"
proof -
  have ne: "E \<noteq> 0" "I \<noteq> 0"
    using assms by simp_all
  from spec_equal_moduli [OF ne] show ?thesis
    by (simp add: kernel_y1 kernel_theta1 kernel_y2 kernel_theta2 distributed_values_ok ne
          spec_y_distributed_def spec_theta_distributed_def)
qed

theorem equal_moduli_one_curve_witness:
  "(0 :: real) < 200000000000 \<and> (0 :: real) < 3125 / 10 ^ 12 \<and> (0 :: real) < 1000 \<and>
   (0 :: real) < 10 \<and> (0 :: real) < 5 \<and> (5 :: real) < 10 \<and> (0 :: real) \<le> 7 \<and> (7 :: real) \<le> 10 \<and>
   y2 7 200000000000 200000000000 (3125 / 10 ^ 12) 10 5 1000 =
     y1 7 200000000000 (3125 / 10 ^ 12) 10 1000 \<and>
   theta2 7 200000000000 200000000000 (3125 / 10 ^ 12) 10 5 1000 =
     theta1 7 200000000000 (3125 / 10 ^ 12) 10 1000 \<and>
   distributed_values (Some 1000) 200000000000 200000000000 (3125 / 10 ^ 12) 10 5 7 =
     Inr (spec_y1 7 200000000000 (3125 / 10 ^ 12) 10 1000,
          spec_theta1 7 200000000000 (3125 / 10 ^ 12) 10 1000)"
proof -
  have h: "(0 :: real) < 200000000000" "(0 :: real) < 3125 / 10 ^ 12" "(0 :: real) < 1000"
    "(0 :: real) < 10" "(0 :: real) < 5" "(5 :: real) < 10" "(0 :: real) \<le> 7" "(7 :: real) \<le> 10"
    by simp_all
  from equal_moduli_one_curve [OF h] h show ?thesis
    by blast
qed

section \<open>The sweep: claims C5, C7, C8 and C10\<close>

text \<open>
  C5.  The claim is that the grid of a distributed-load sweep runs from \<open>0\<close> to \<open>L\<close>
  and contains \<open>L\<close> itself also when \<open>L\<close> is not a multiple of the step.  The code
  breaks it: \<open>np.arange(0, L + step, step)\<close> steps on from \<open>0\<close> and, for such an
  \<open>L\<close>, passes over \<open>L\<close>.  For a beam of length \<open>1.001\<close> the grid has the
  \<open>\<lceil>L / 0.0025\<rceil> + 1 = 402\<close> points the claim counts, but \<open>1.001\<close> is not one of them
  and the last one is \<open>1.0025\<close>, beyond the end of the beam; for a length of \<open>0.003\<close>
  the grid is \<open>0, 0.0025, 0.005\<close>.  (The counts of the claim hold of the exact
  quotient: see \<open>distributed_sweep_pairs\<close>, \<open>distributed_sweep_length\<close> and
  \<open>length_x_values\<close>.)
\<close>

theorem grid_passes_over_beam_end:
  "x_values (3 / 1000) = [0, 1 / 400, 1 / 200] \<and>
   length (x_values (1001 / 1000)) = 402 \<and>
   1001 / 1000 \<notin> set (x_values (1001 / 1000)) \<and>
   last (x_values (1001 / 1000)) = 401 / 400"
proof -
  have a: "x_values (3 / 1000) = [0, 1 / 400, 1 / 200]"
    by code_simp
  have b: "length (x_values (1001 / 1000)) = 402"
    by (simp add: length_x_values step_def)
  have "1001 / 1000 \<noteq> real k * step" for k :: nat
  proof
    assume "1001 / 1000 = real k * step"
    then have "real (k * 5) = real 2002"
      by (simp add: step_def)
    then have "k * 5 = 2002"
      by (simp only: of_nat_eq_iff)
    then show False
      by presburger
  qed
  then have c: "1001 / 1000 \<notin> set (x_values (1001 / 1000))"
    using x_values_overshoot [of "1001 / 1000"] by simp
  have "x_values (1001 / 1000) \<noteq> []"
    using b by auto
  then have d: "last (x_values (1001 / 1000)) = 401 / 400"
    using b by (simp add: last_conv_nth x_values_nth step_def)
  from a b c d show ?thesis
    by blast
qed

text \<open>
  C7.  If the catalog has no materials, no beams or no loads, \<open>compute_deflections\<close>
  returns at once with an empty transition-point store: it prints the three counts
  and one diagnostic, opens no output file, writes no row, shows no prompt and reads
  no input.  A catalog without loads therefore produces no output file.
\<close>

theorem empty_catalog_returns_at_once:
  assumes "materials lib = [] \<or> beams lib = [] \<or> loads lib = []"
  shows "compute_deflections lib output_filename ins =
     Inr \<lparr>stdin = ins,
          trace = [Print (LoadedMaterials (length (materials lib))),
                   Print (LoadedBeams (length (beams lib))),
                   Print (LoadedLoads (length (loads lib))),
                   Print (if beams lib = [] then NoBeams
                          else if loads lib = [] then NoLoads else NoMaterials)],
          transition_points = []\<rparr>"
  using assms
  by (auto simp: compute_deflections_def get_materials_def get_beams_def get_loads_def
        emit_def Let_def)

theorem empty_catalog_returns_at_once_witness:
  "(materials (default_library\<lparr>loads := []\<rparr>) = [] \<or> beams (default_library\<lparr>loads := []\<rparr>) = [] \<or>
    loads (default_library\<lparr>loads := []\<rparr>) = []) \<and>
   compute_deflections (default_library\<lparr>loads := []\<rparr>) ''deflection_results.csv'' [Number 5] =
     Inr \<lparr>stdin = [Number 5],
          trace = [Print (LoadedMaterials 3), Print (LoadedBeams 2), Print (LoadedLoads 0),
                   Print NoLoads],
          transition_points = []\<rparr>"
  using empty_catalog_returns_at_once
          [of "default_library\<lparr>loads := []\<rparr>" "''deflection_results.csv''" "[Number 5]"]
  by (simp add: default_library_def default_materials_def default_beams_def)

text \<open>
  C8.  In \<open>compute_deflections\<close> a point load whose position \<open>a\<close> has \<open>a \<le> 0\<close> or
  \<open>a \<ge> L\<close> is skipped for that beam: the load adds two printed lines (the load being
  applied and the warning) and nothing else, so no row is written, no prompt is
  shown, no input is read and no transition point is stored.  A load whose kind is
  neither \<open>distributed\<close> nor \<open>point\<close> is skipped in the same way with its own
  diagnostic.  In both cases the loop goes on with the loads that follow.
\<close>

theorem skipped_loads:
  assumes "load_type lp = ''point''" "l_a lp = Some a" "a \<le> 0 \<or> b_length bm \<le> a"
    and "load_type lu \<noteq> ''distributed''" "load_type lu \<noteq> ''point''"
  shows "process_load ms bm lp st =
           Inr (st\<lparr>trace := trace st @ [Print (ApplyingLoad (l_name lp) (load_type lp)),
                                        Print (PointLoadOutside a (b_length bm))]\<rparr>) \<and>
         loads_loop ms bm (lp # lds) st =
           loads_loop ms bm lds
             (st\<lparr>trace := trace st @ [Print (ApplyingLoad (l_name lp) (load_type lp)),
                                      Print (PointLoadOutside a (b_length bm))]\<rparr>) \<and>
         process_load ms bm lu st =
           Inr (st\<lparr>trace := trace st @ [Print (ApplyingLoad (l_name lu) (load_type lu)),
                                        Print (UnsupportedLoadType (load_type lu))]\<rparr>) \<and>
         loads_loop ms bm (lu # lds) st =
           loads_loop ms bm lds
             (st\<lparr>trace := trace st @ [Print (ApplyingLoad (l_name lu) (load_type lu)),
                                      Print (UnsupportedLoadType (load_type lu))]\<rparr>)"
  using assms by (auto simp: process_load_def Let_def emit_def)

theorem skipped_loads_witness:
  "load_type (hd (loads outside_point_catalog)) = ''point'' \<and>
   l_a (hd (loads outside_point_catalog)) = Some 12 \<and>
   ((12 :: real) \<le> 0 \<or> b_length (hd default_beams) \<le> 12) \<and>
   load_type \<lparr>l_name = ''Torque'', load_type = ''moment'', l_w = None, l_P = None, l_a = None\<rparr>
     \<noteq> ''distributed'' \<and>
   load_type \<lparr>l_name = ''Torque'', load_type = ''moment'', l_w = None, l_P = None, l_a = None\<rparr>
     \<noteq> ''point'' \<and>
   process_load default_materials (hd default_beams) (hd (loads outside_point_catalog))
       \<lparr>stdin = [Number 5], trace = [], transition_points = []\<rparr> =
     Inr \<lparr>stdin = [Number 5],
          trace = [Print (ApplyingLoad ''Point Load 1'' ''point''),
                   Print (PointLoadOutside 12 10)],
          transition_points = []\<rparr> \<and>
   process_load default_materials (hd default_beams)
       \<lparr>l_name = ''Torque'', load_type = ''moment'', l_w = None, l_P = None, l_a = None\<rparr>
       \<lparr>stdin = [Number 5], trace = [], transition_points = []\<rparr> =
     Inr \<lparr>stdin = [Number 5],
          trace = [Print (ApplyingLoad ''Torque'' ''moment''),
                   Print (UnsupportedLoadType ''moment'')],
          transition_points = []\<rparr>"
proof -
  have h: "load_type (hd (loads outside_point_catalog)) = ''point''"
    "l_a (hd (loads outside_point_catalog)) = Some 12"
    "(12 :: real) \<le> 0 \<or> b_length (hd default_beams) \<le> 12"
    "load_type \<lparr>l_name = ''Torque'', load_type = ''moment'', l_w = None, l_P = None,
                l_a = None\<rparr> \<noteq> ''distributed''"
    "load_type \<lparr>l_name = ''Torque'', load_type = ''moment'', l_w = None, l_P = None,
                l_a = None\<rparr> \<noteq> ''point''"
    by (simp_all add: outside_point_catalog_def default_beams_def)
  have n: "l_name (hd (loads outside_point_catalog)) = ''Point Load 1''"
    "b_length (hd default_beams) = 10"
    by (simp_all add: outside_point_catalog_def default_beams_def)
  from skipped_loads [OF h, of default_materials
      "\<lparr>stdin = [Number 5], trace = [], transition_points = []\<rparr>" "[]"] h
  show ?thesis
    by (simp add: n)
qed

text \<open>
  C10.  For a point load the numbers computed depend on the first material only.
  The rows of a pairing \<open>(m1, m2)\<close> and of a pairing \<open>(m1, m2')\<close> are the same but for
  the name in the \<open>Material2\<close> column, whatever the modulus of the second material;
  the curves plotted for the two pairings have the same positions and the same
  rotations.  The transition point does not enter either: two tabulations of the
  load that differ in the accepted \<open>T\<close> write the same rows, and two plots that
  differ in the stored \<open>T\<close> show the same figure.
\<close>

theorem point_load_first_material_only:
  assumes "load_type ld = ''point''" "0 < T" "T < b_length bm" "0 < T'" "T' < b_length bm"
  shows "map_sum id (map (\<lambda>r. r\<lparr>r_material2 := []\<rparr>)) (point_pair_rows bm ld I L a (m1, m2)) =
         map_sum id (map (\<lambda>r. r\<lparr>r_material2 := []\<rparr>)) (point_pair_rows bm ld I L a (m1, m2')) \<and>
         map_sum id (\<lambda>c. (c_x c, c_theta c)) (point_curve ld I L n (i, m1, m2)) =
         map_sum id (\<lambda>c. (c_x c, c_theta c)) (point_curve ld I L n (i', m1, m2')) \<and>
         map_sum id (\<lambda>s. rows_written (trace s))
           (process_load ms bm ld (st\<lparr>stdin := Number T # rest\<rparr>)) =
         map_sum id (\<lambda>s. rows_written (trace s))
           (process_load ms bm ld (st\<lparr>stdin := Number T' # rest\<rparr>)) \<and>
         map_sum id (\<lambda>s. figures_shown (trace s))
           (plot_load ms bm ld (st\<lparr>transition_points := [(b_name bm, T # ts)]\<rparr>)) =
         map_sum id (\<lambda>s. figures_shown (trace s))
           (plot_load ms bm ld (st\<lparr>transition_points := [(b_name bm, T' # ts)]\<rparr>))"
proof -
  have "map_sum id (map (\<lambda>r. r\<lparr>r_material2 := []\<rparr>)) (point_pair_rows bm ld I L a (m1, m2)) =
        map_sum id (map (\<lambda>r. r\<lparr>r_material2 := []\<rparr>)) (point_pair_rows bm ld I L a (m1, m2'))"
    unfolding point_pair_rows_def for_each_map_sum
    by (rule arg_cong [where f = "\<lambda>f. for_each f (x_values L)"])
       (auto simp: mk_row_def fun_eq_iff split: sum.splits)
  moreover
  have "map_sum id (\<lambda>c. (c_x c, c_theta c)) (point_curve ld I L n (i, m1, m2)) =
        map_sum id (\<lambda>c. (c_x c, c_theta c)) (point_curve ld I L n (i', m1, m2'))"
    by (simp add: point_curve_def Let_def split: sum.splits)
  moreover
  have "map_sum id (\<lambda>s. rows_written (trace s))
          (process_load ms bm ld (st\<lparr>stdin := Number T # rest\<rparr>)) =
        map_sum id (\<lambda>s. rows_written (trace s))
          (process_load ms bm ld (st\<lparr>stdin := Number T' # rest\<rparr>))"
    using assms
    by (simp add: process_load_def Let_def emit_def prompt_point_accept rows_written_append
          rows_written_rows split: option.splits sum.splits)
  moreover
  have "map_sum id (\<lambda>s. figures_shown (trace s))
          (plot_load ms bm ld (st\<lparr>transition_points := [(b_name bm, T # ts)]\<rparr>)) =
        map_sum id (\<lambda>s. figures_shown (trace s))
          (plot_load ms bm ld (st\<lparr>transition_points := [(b_name bm, T' # ts)]\<rparr>))"
    using assms(1)
    by (simp add: plot_load_def Let_def emit_def get_Ts_def figures_shown_append
          split: sum.splits)
  ultimately show ?thesis
    by blast
qed

theorem point_load_first_material_only_witness:
  "load_type (last default_loads) = ''point'' \<and>
   (0 :: real) < 5 \<and> 5 < b_length (hd default_beams) \<and>
   (0 :: real) < 7 \<and> 7 < b_length (hd default_beams) \<and>
   map_sum id (\<lambda>s. rows_written (trace s))
     (process_load default_materials (hd default_beams) (last default_loads)
        (\<lparr>stdin = [], trace = [], transition_points = []\<rparr>\<lparr>stdin := Number 5 # []\<rparr>)) =
   map_sum id (\<lambda>s. rows_written (trace s))
     (process_load default_materials (hd default_beams) (last default_loads)
        (\<lparr>stdin = [], trace = [], transition_points = []\<rparr>\<lparr>stdin := Number 7 # []\<rparr>)) \<and>
   \<not> isl (process_load default_materials (hd default_beams) (last default_loads)
        (\<lparr>stdin = [], trace = [], transition_points = []\<rparr>\<lparr>stdin := Number 5 # []\<rparr>))"
proof -
  have h: "load_type (last default_loads) = ''point''"
    "(0 :: real) < 5" "5 < b_length (hd default_beams)"
    "(0 :: real) < 7" "7 < b_length (hd default_beams)"
    by (simp_all add: default_loads_def default_beams_def)
  have ok: "\<not> isl (process_load default_materials (hd default_beams) (last default_loads)
        (\<lparr>stdin = [], trace = [], transition_points = []\<rparr>\<lparr>stdin := Number 5 # []\<rparr>))"
    by (simp add: process_load_def Let_def emit_def default_materials_def default_beams_def
          default_loads_def moment_of_inertia_def point_sweep_ok [where P = 5000])
  from point_load_first_material_only [OF h] h ok show ?thesis
    by blast
qed

section \<open>Tabulation and plotting: claims C4 and C9\<close>

text \<open>
  C4.  The claim is that the plot of a (beam, load) pair uses the transition point
  that the tabulation stored for that pair, also when loads of the beam are skipped.
  The code breaks it for a skipped point load: \<open>compute_deflections\<close> tests
  \<open>0 < a < L\<close> and stores nothing for a point load outside the beam, while
  \<open>plot_deflections\<close> has no such test and pops a value for every point load.  On
  the catalog \<open>outside_point_catalog\<close> with the reply \<open>5\<close>, the tabulation skips
  \<open>Point Load 1\<close>, asks for \<open>T\<close> once, for \<open>Uniform Load\<close>, writes rows of
  \<open>Uniform Load\<close> only and returns the store \<open>Beam1: [5]\<close>; the plotting then takes
  that \<open>5\<close> for \<open>Point Load 1\<close>, shows the only figure for it, and finds no
  transition point left for \<open>Uniform Load\<close>.
\<close>

theorem plot_takes_T_of_other_load:
  "map_sum id (\<lambda>s. (messages (trace s), map r_load (rows_written (trace s)),
                    transition_points s))
     (compute_deflections outside_point_catalog ''deflection_results.csv'' [Number 5]) =
   Inr ([LoadedMaterials 1, LoadedBeams 1, LoadedLoads 2, ConfiguringBeam ''Beam1'',
         ApplyingLoad ''Point Load 1'' ''point'', PointLoadOutside 12 10,
         ApplyingLoad ''Uniform Load'' ''distributed'', EnterT ''Beam1'' 10,
         ResultsWritten ''deflection_results.csv''],
        replicate 4001 ''Uniform Load'',
        [(''Beam1'', [5])]) \<and>
   map_sum id (\<lambda>s. (messages (trace s),
                    map (\<lambda>f. (f_beam f, f_load f)) (figures_shown (trace s)),
                    transition_points s))
     (main outside_point_catalog [Number 5]) =
   Inr ([LoadedMaterials 1, LoadedBeams 1, LoadedLoads 2, ConfiguringBeam ''Beam1'',
         ApplyingLoad ''Point Load 1'' ''point'', PointLoadOutside 12 10,
         ApplyingLoad ''Uniform Load'' ''distributed'', EnterT ''Beam1'' 10,
         ResultsWritten ''deflection_results.csv'', PlottingBeam ''Beam1'',
         PlottingPoint ''Point Load 1'' 5 (Some 12),
         NoTransitionPoint ''Beam1'' ''Uniform Load'', Completed],
        [(''Beam1'', ''Point Load 1'')],
        [(''Beam1'', [])])"
proof -
  have len: "length (x_values 10) = 4001"
    by (simp add: length_x_values step_def)
  have tab: "map_sum id (\<lambda>s. (messages (trace s), map r_load (rows_written (trace s)),
                    transition_points s))
     (compute_deflections outside_point_catalog ''deflection_results.csv'' [Number 5]) =
   Inr ([LoadedMaterials 1, LoadedBeams 1, LoadedLoads 2, ConfiguringBeam ''Beam1'',
         ApplyingLoad ''Point Load 1'' ''point'', PointLoadOutside 12 10,
         ApplyingLoad ''Uniform Load'' ''distributed'', EnterT ''Beam1'' 10,
         ResultsWritten ''deflection_results.csv''],
        replicate 4001 ''Uniform Load'',
        [(''Beam1'', [5])])"
    by (simp add: compute_deflections_def outside_point_catalog_def get_materials_def
          get_beams_def get_loads_def Let_def emit_def process_load_def moment_of_inertia_def
          distributed_sweep_ok [where w = 1000] messages_append messages_rows messages_rows_o
          messages_rows_fun rows_written_append rows_written_rows_fun mk_row_def comp_def
          map_replicate_const len)
  have run: "map_sum id (\<lambda>s. (messages (trace s),
                    map (\<lambda>f. (f_beam f, f_load f)) (figures_shown (trace s)),
                    transition_points s))
     (main outside_point_catalog [Number 5]) =
   Inr ([LoadedMaterials 1, LoadedBeams 1, LoadedLoads 2, ConfiguringBeam ''Beam1'',
         ApplyingLoad ''Point Load 1'' ''point'', PointLoadOutside 12 10,
         ApplyingLoad ''Uniform Load'' ''distributed'', EnterT ''Beam1'' 10,
         ResultsWritten ''deflection_results.csv'', PlottingBeam ''Beam1'',
         PlottingPoint ''Point Load 1'' 5 (Some 12),
         NoTransitionPoint ''Beam1'' ''Uniform Load'', Completed],
        [(''Beam1'', ''Point Load 1'')],
        [(''Beam1'', [])])"
    by (simp add: main_def plot_deflections_def plot_load_def get_Ts_def
          point_curve_ok [where P = 5000 and a = 12] compute_deflections_def
          outside_point_catalog_def get_materials_def get_beams_def get_loads_def Let_def
          emit_def process_load_def moment_of_inertia_def distributed_sweep_ok [where w = 1000]
          messages_append messages_rows messages_rows_o figures_shown_append
          figures_shown_rows figures_shown_rows_o)
  from tab run show ?thesis
    by (rule conjI)
qed




end
